theory Spec2Isabelle
  imports Main
begin

section \<open>Strings and numbers as Python prints them\<close>

text \<open>
  A Python \<^verbatim>\<open>str\<close> is modelled as a \<^typ>\<open>string\<close>: one \<^typ>\<open>char\<close> per code point, so the
  model covers the code points below 256.  Python's unbounded \<^verbatim>\<open>int\<close> is \<^typ>\<open>int\<close>.
  \<^verbatim>\<open>str(i)\<close>, as the f-strings of \<^verbatim>\<open>main.py\<close> apply it to an index, is \<open>str_int\<close>.
\<close>

definition digit_char :: "nat \<Rightarrow> char" where
  "digit_char d = ''0123456789'' ! d"

fun str_nat :: "nat \<Rightarrow> string" where
  "str_nat n = (if n < 10 then [digit_char n] else str_nat (n div 10) @ [digit_char (n mod 10)])"

declare str_nat.simps [simp del]

definition str_int :: "int \<Rightarrow> string" where
  "str_int i = (if i < 0 then CHR ''-'' # str_nat (nat (- i)) else str_nat (nat i))"

text \<open>The format specification \<^verbatim>\<open>03d\<close>: sign first, then zeros up to a total width of three.\<close>

definition zfill :: "nat \<Rightarrow> string \<Rightarrow> string" where
  "zfill w s = replicate (w - length s) (CHR ''0'') @ s"

definition fmt_03d :: "int \<Rightarrow> string" where
  "fmt_03d i = (if i < 0 then CHR ''-'' # zfill 2 (str_nat (nat (- i))) else zfill 3 (str_nat (nat i)))"

text \<open>\<^verbatim>\<open>sep.join(parts)\<close>.\<close>

fun join :: "string \<Rightarrow> string list \<Rightarrow> string" where
  "join sep [] = []"
| "join sep [p] = p"
| "join sep (p # q # ps) = p @ sep @ join sep (q # ps)"

text \<open>
  \<^verbatim>\<open>str.strip()\<close> removes the white space of both ends; below 256 the code points Python
  counts as white space are 9 to 13, 28 to 32, 133 and 160.
\<close>

definition is_space :: "char \<Rightarrow> bool" where
  "is_space c = (let n = (of_char c :: nat) in (9 \<le> n \<and> n \<le> 13) \<or> (28 \<le> n \<and> n \<le> 32) \<or> n = 133 \<or> n = 160)"

definition strip :: "string \<Rightarrow> string" where
  "strip s = rev (dropWhile is_space (rev (dropWhile is_space s)))"

text \<open>
  \<^verbatim>\<open>str.capitalize()\<close> on the letters of ASCII, which are the letters of the cell kinds
  nbformat knows (\<^verbatim>\<open>code\<close>, \<^verbatim>\<open>markdown\<close>, \<^verbatim>\<open>raw\<close>): first character upper case, the others
  lower case.
\<close>

definition ascii_lower :: "char \<Rightarrow> char" where
  "ascii_lower c = (let n = (of_char c :: nat) in if 65 \<le> n \<and> n \<le> 90 then char_of (n + 32) else c)"

definition ascii_upper :: "char \<Rightarrow> char" where
  "ascii_upper c = (let n = (of_char c :: nat) in if 97 \<le> n \<and> n \<le> 122 then char_of (n - 32) else c)"

definition capitalize :: "string \<Rightarrow> string" where
  "capitalize s = (case s of [] \<Rightarrow> [] | c # cs \<Rightarrow> ascii_upper c # map ascii_lower cs)"

text \<open>\<^verbatim>\<open>pat in s\<close> for strings: \<open>pat\<close> occurs in \<open>s\<close> as a contiguous piece.\<close>

fun starts_with :: "string \<Rightarrow> string \<Rightarrow> bool" where
  "starts_with [] s = True"
| "starts_with (p # ps) [] = False"
| "starts_with (p # ps) (c # cs) = (p = c \<and> starts_with ps cs)"

fun contains :: "string \<Rightarrow> string \<Rightarrow> bool" where
  "contains pat [] = (pat = [])"
| "contains pat (c # cs) = (starts_with pat (c # cs) \<or> contains pat cs)"

section \<open>Constants of main.py\<close>

definition MAX_TEXT_OUTPUT_LENGTH :: nat where
  "MAX_TEXT_OUTPUT_LENGTH = 500"

definition MAX_TABLE_ROWS :: nat where
  "MAX_TABLE_ROWS = 5"

definition TRUNCATION_MARKER :: string where
  "TRUNCATION_MARKER = ''[TRUNCATED]''"

definition HINT_FULL_OUTPUT :: string where
  "HINT_FULL_OUTPUT = ''Use `get_full_output` for full content.''"

section \<open>The document\<close>

text \<open>
  An output of nbformat is a dictionary with an \<^verbatim>\<open>output_type\<close> tag; the fields the tool
  reads are kept, the mime bundle \<^verbatim>\<open>data\<close> as an association list in the order of its keys.
  A cell has its kind tag, its source and its outputs; a notebook is its cells.
\<close>

record nb_output =
  output_type :: string
  stream_name :: string
  stream_text :: string
  data :: "(string \<times> string) list"
  ename :: string
  evalue :: string
  traceback :: "string list"

record cell =
  cell_type :: string
  source :: string
  outputs :: "nb_output list"

record notebook =
  cells :: "cell list"

text \<open>\<^verbatim>\<open>new_code_cell(source)\<close> and \<^verbatim>\<open>new_markdown_cell(source)\<close> of nbformat.v4.\<close>

definition new_code_cell :: "string \<Rightarrow> cell" where
  "new_code_cell src = \<lparr>cell_type = ''code'', source = src, outputs = []\<rparr>"

definition new_markdown_cell :: "string \<Rightarrow> cell" where
  "new_markdown_cell src = \<lparr>cell_type = ''markdown'', source = src, outputs = []\<rparr>"

text \<open>\<^verbatim>\<open>key in d\<close> and \<^verbatim>\<open>d[key]\<close> on a mime bundle; the second is only used behind the first.\<close>

definition has_key :: "(string \<times> string) list \<Rightarrow> string \<Rightarrow> bool" where
  "has_key d k = (map_of d k \<noteq> None)"

definition lookup :: "(string \<times> string) list \<Rightarrow> string \<Rightarrow> string" where
  "lookup d k = (case map_of d k of Some v \<Rightarrow> v | None \<Rightarrow> [])"

section \<open>The files\<close>

text \<open>
  The file system as the tool sees it: a path holds nothing, a file nbformat cannot read
  (with the text of the exception) or a notebook.  \<open>write_error\<close> gives the paths that
  cannot be opened for writing, with the text of the exception; such a file stays as it is.
\<close>

record fs =
  files :: "string \<rightharpoonup> string + notebook"
  write_error :: "string \<rightharpoonup> string"

definition read_notebook :: "fs \<Rightarrow> string \<Rightarrow> notebook option \<times> string option" where
  "read_notebook st filepath =
     (case files st filepath of
        None \<Rightarrow> (None, Some (''Notebook file not found at '' @ filepath))
      | Some (Inl e) \<Rightarrow> (None, Some (''Error reading notebook: '' @ e))
      | Some (Inr nb) \<Rightarrow> (Some nb, None))"

definition write_notebook :: "fs \<Rightarrow> notebook \<Rightarrow> string \<Rightarrow> fs \<times> bool \<times> string option" where
  "write_notebook st nb filepath =
     (case write_error st filepath of
        Some e \<Rightarrow> (st, False, Some (''Error writing notebook: '' @ e))
      | None \<Rightarrow> (st\<lparr>files := (files st)(filepath \<mapsto> Inr nb)\<rparr>, True, None))"

text \<open>The truth value Python gives an optional message in \<^verbatim>\<open>if error:\<close>.\<close>

definition truthy :: "string option \<Rightarrow> bool" where
  "truthy e = (case e of None \<Rightarrow> False | Some s \<Rightarrow> s \<noteq> [])"

section \<open>The output formatter\<close>

definition format_text_output :: "string \<Rightarrow> int \<Rightarrow> int \<Rightarrow> string" where
  "format_text_output text_content cell_idx output_idx =
     (if length text_content > MAX_TEXT_OUTPUT_LENGTH
      then ''Text: '' @ take MAX_TEXT_OUTPUT_LENGTH text_content @ ''... '' @ TRUNCATION_MARKER
           @ '' '' @ HINT_FULL_OUTPUT @ '' (cell '' @ str_int cell_idx @ '' [1-based], output ''
           @ str_int output_idx @ '' [1-based])''
      else ''Text: '' @ text_content)"

definition format_image_output :: "int \<Rightarrow> int \<Rightarrow> string" where
  "format_image_output cell_idx output_idx =
     ''Image (PNG) - IMG_ID'' @ fmt_03d cell_idx @ fmt_03d output_idx @ '' '' @ HINT_FULL_OUTPUT
     @ '' (cell '' @ str_int cell_idx @ '' [1-based], output '' @ str_int output_idx
     @ '' [1-based])''"

section \<open>The regular expressions of the table extractor\<close>

text \<open>
  With \<^verbatim>\<open>re.IGNORECASE\<close> a letter of a pattern matches both of its cases; the patterns
  of \<^verbatim>\<open>main.py\<close> hold ASCII letters only.
\<close>

definition ci_eq :: "char \<Rightarrow> char \<Rightarrow> bool" where
  "ci_eq a b = (ascii_lower a = ascii_lower b)"

fun starts_with_ci :: "string \<Rightarrow> string \<Rightarrow> bool" where
  "starts_with_ci [] s = True"
| "starts_with_ci (p # ps) [] = False"
| "starts_with_ci (p # ps) (c # cs) = (ci_eq p c \<and> starts_with_ci ps cs)"

text \<open>
  The leftmost occurrence of \<open>pat\<close> in \<open>s\<close>, letters compared without case: the text
  before it and the text after it.
\<close>

fun split_ci :: "string \<Rightarrow> string \<Rightarrow> (string \<times> string) option" where
  "split_ci pat [] = (if pat = [] then Some ([], []) else None)"
| "split_ci pat (c # cs) =
     (if starts_with_ci pat (c # cs) then Some ([], drop (length pat) (c # cs))
      else (case split_ci pat cs of None \<Rightarrow> None | Some (b, a) \<Rightarrow> Some (c # b, a)))"

text \<open>
  \<^verbatim>\<open>re.search(r'<tag.*?>(.*?)</tag>', s, re.DOTALL | re.IGNORECASE)\<close>: the match starts at
  the leftmost \<^verbatim>\<open><tag\<close>, the first lazy star stops at the next \<^verbatim>\<open>>\<close> and the group
  at the next \<^verbatim>\<open></tag>\<close>; a later start or a later \<^verbatim>\<open>>\<close> can only match where these do.
  The result is group 1 and the text after the match, \<open>None\<close> when nothing matches.
\<close>

definition search_element :: "string \<Rightarrow> string \<Rightarrow> (string \<times> string) option" where
  "search_element tag s =
     (case split_ci (CHR ''<'' # tag) s of
        None \<Rightarrow> None
      | Some (b, r1) \<Rightarrow>
          (case split_ci ''>'' r1 of
             None \<Rightarrow> None
           | Some (attrs, r2) \<Rightarrow> split_ci (''</'' @ tag @ ''>'') r2))"

lemma split_ci_length:
  "split_ci pat s = Some (b, a) \<Longrightarrow> length b + length pat + length a = length s"
proof (induction s arbitrary: b a)
  case Nil
  then show ?case by (simp split: if_splits)
next
  case (Cons c cs)
  show ?case
  proof (cases "starts_with_ci pat (c # cs)")
    case True
    have "length pat \<le> length s" if "starts_with_ci pat s" for s
      using that by (induction pat s rule: starts_with_ci.induct) auto
    with True have "length pat \<le> length (c # cs)" by blast
    with True Cons.prems show ?thesis by auto
  next
    case False
    with Cons.prems obtain b' where "split_ci pat cs = Some (b', a)" and "b = c # b'"
      by (auto split: option.splits)
    with Cons.IH show ?thesis by fastforce
  qed
qed

lemma search_element_shorter:
  "search_element tag s = Some (g, rest) \<Longrightarrow> length rest < length s"
  unfolding search_element_def
  by (auto split: option.splits dest!: split_ci_length)

text \<open>
  \<^verbatim>\<open>re.findall\<close> of the same pattern: group 1 of every match, each search starting where
  the match before it ended.
\<close>

function findall_element :: "string \<Rightarrow> string \<Rightarrow> string list" where
  "findall_element tag s =
     (case search_element tag s of
        None \<Rightarrow> []
      | Some (g, rest) \<Rightarrow> g # findall_element tag rest)"
  by pat_completeness auto
termination
  by (relation "measure (\<lambda>(tag, s). length s)") (auto dest: search_element_shorter)

declare findall_element.simps [simp del]

text \<open>
  \<^verbatim>\<open>re.sub(r'<.*?>', '', s)\<close>, without \<^verbatim>\<open>re.DOTALL\<close>: a \<^verbatim>\<open><\<close> starts a match when a
  \<^verbatim>\<open>>\<close> follows before any line feed; the match is removed and the scan goes on after it.
\<close>

fun tag_end :: "string \<Rightarrow> string option" where
  "tag_end [] = None"
| "tag_end (c # cs) =
     (if c = CHR ''>'' then Some cs else if c = CHR 0x0A then None else tag_end cs)"

lemma tag_end_shorter: "tag_end s = Some rest \<Longrightarrow> length rest < length s"
  by (induction s) (auto split: if_splits)

function re_sub_tags :: "string \<Rightarrow> string" where
  "re_sub_tags [] = []"
| "re_sub_tags (c # cs) =
     (if c = CHR ''<'' then
        (case tag_end cs of Some rest \<Rightarrow> re_sub_tags rest | None \<Rightarrow> c # re_sub_tags cs)
      else c # re_sub_tags cs)"
  by pat_completeness auto
termination
  by (relation "measure length") (auto dest: tag_end_shorter)

section \<open>The table extractor\<close>

text \<open>
  \<^verbatim>\<open>html.unescape\<close> belongs to Python's library; the extractor takes it as the
  parameter \<open>unescape\<close>.  \<open>cell_text\<close> is the expression both comprehensions apply to a
  matched cell, \<open>pipe_row\<close> the row they build.
\<close>

definition cell_text :: "(string \<Rightarrow> string) \<Rightarrow> string \<Rightarrow> string" where
  "cell_text unescape h = strip (unescape (re_sub_tags h))"

definition pipe_row :: "(string \<Rightarrow> string) \<Rightarrow> string list \<Rightarrow> string" where
  "pipe_row unescape ms = ''| '' @ join '' | '' (map (cell_text unescape) ms) @ '' |''"

definition header_rows :: "(string \<Rightarrow> string) \<Rightarrow> string \<Rightarrow> string list" where
  "header_rows unescape html_content =
     (case search_element ''thead'' html_content of
        None \<Rightarrow> []
      | Some (header_content, after) \<Rightarrow>
          (let th_matches = findall_element ''th'' header_content in
           if th_matches \<noteq> []
           then [pipe_row unescape th_matches,
                 ''|'' @ concat (replicate (length th_matches) ''---|'')]
           else []))"

text \<open>The loop over \<^verbatim>\<open>enumerate(tr_matches)\<close>, \<open>i\<close> the index of the row at the head.\<close>

fun body_rows :: "(string \<Rightarrow> string) \<Rightarrow> nat \<Rightarrow> string list \<Rightarrow> string list" where
  "body_rows unescape i [] = []"
| "body_rows unescape i (tr # trs) =
     (if i \<ge> MAX_TABLE_ROWS then []
      else (let td_matches = findall_element ''td'' tr in
            (if td_matches \<noteq> [] then [pipe_row unescape td_matches] else [])
            @ body_rows unescape (Suc i) trs))"

definition format_table_output :: "(string \<Rightarrow> string) \<Rightarrow> string \<Rightarrow> int \<Rightarrow> int \<Rightarrow> string" where
  "format_table_output unescape html_content cell_idx output_idx =
     (let tr_matches =
            (case search_element ''tbody'' html_content of
               None \<Rightarrow> []
             | Some (body_content, after) \<Rightarrow> findall_element ''tr'' body_content);
          table_rows = header_rows unescape html_content @ body_rows unescape 0 tr_matches
      in if table_rows \<noteq> [] then
           (let summary = join ''\<newline>'' table_rows;
                summary = (if length tr_matches > MAX_TABLE_ROWS
                           then summary @ ''\<newline>... '' @ TRUNCATION_MARKER
                           else summary)
            in ''Table (HTML): \<newline>```markdown\<newline>'' @ summary @ ''\<newline>```\<newline>'' @ HINT_FULL_OUTPUT
               @ '' (cell '' @ str_int cell_idx @ '' [1-based], output ''
               @ str_int output_idx @ '' [1-based])'')
         else ''HTML content (truncated): '' @ take MAX_TEXT_OUTPUT_LENGTH html_content
              @ ''... '' @ TRUNCATION_MARKER @ '' '' @ HINT_FULL_OUTPUT
              @ '' (cell '' @ str_int cell_idx @ '' [1-based], output ''
              @ str_int output_idx @ '' [1-based])'')"

section \<open>The replies of the tools\<close>

text \<open>
  Every tool returns a dictionary with an \<^verbatim>\<open>error\<close> entry; all but
  \<^verbatim>\<open>get_full_output\<close> name the file, and the editing tools report \<^verbatim>\<open>success\<close>.
\<close>

record reply =
  error :: "string option"

record path_reply = reply +
  filepath :: string

record content_reply = path_reply +
  formatted_content :: string

record edit_reply = path_reply +
  success :: bool

record add_reply = edit_reply +
  new_cell_actual_index :: int

section \<open>The content renderer\<close>

text \<open>
  The body of the loop over \<^verbatim>\<open>enumerate(cell.outputs)\<close> up to the summary of one output:
  \<open>i\<close> and \<open>j\<close> are the indices \<^verbatim>\<open>enumerate\<close> gives the cell and the output, from 0.
\<close>

definition output_summary :: "(string \<Rightarrow> string) \<Rightarrow> int \<Rightarrow> int \<Rightarrow> nb_output \<Rightarrow> string" where
  "output_summary unescape i j output =
     (if output_type output = ''stream'' then
        format_text_output (stream_text output) (i + 1) (j + 1)
      else if output_type output = ''display_data'' \<or> output_type output = ''execute_result'' then
        (if has_key (data output) ''image/png'' then
           format_image_output (i + 1) (j + 1)
         else if has_key (data output) ''text/html''
                 \<and> (contains ''<table'' (lookup (data output) ''text/html'')
                      \<or> contains ''<TABLE'' (lookup (data output) ''text/html'')) then
           format_table_output unescape (lookup (data output) ''text/html'') (i + 1) (j + 1)
         else if has_key (data output) ''text/plain'' then
           format_text_output (lookup (data output) ''text/plain'') (i + 1) (j + 1)
         else ''Other data type: '' @ join '', '' (map fst (data output)) @ '' ''
              @ HINT_FULL_OUTPUT @ '' (cell '' @ str_int (i + 1) @ '', output ''
              @ str_int (j + 1) @ '')'')
      else if output_type output = ''error'' then
        ''Error: '' @ ename output @ '': '' @ evalue output @ '' '' @ HINT_FULL_OUTPUT
        @ '' (cell '' @ str_int (i + 1) @ '', output '' @ str_int (j + 1) @ '')''
      else [])"

text \<open>
  The two loops append to the list \<^verbatim>\<open>formatted_content\<close>; each gives the strings it
  appends, in order.
\<close>

fun outputs_loop :: "(string \<Rightarrow> string) \<Rightarrow> int \<Rightarrow> int \<Rightarrow> nb_output list \<Rightarrow> string list" where
  "outputs_loop unescape i j [] = []"
| "outputs_loop unescape i j (output # rest) =
     (''- '' @ output_summary unescape i j output @ ''\<newline>'')
     # outputs_loop unescape i (j + 1) rest"

definition cell_block :: "(string \<Rightarrow> string) \<Rightarrow> int \<Rightarrow> cell \<Rightarrow> string list" where
  "cell_block unescape i c =
     [''[[Cell '' @ str_int (i + 1) @ '' - '' @ capitalize (cell_type c) @ '']]\<newline>'',
      ''```\<newline>'',
      strip (source c),
      ''\<newline>```\<newline>'']
     @ (if cell_type c = ''code'' \<and> outputs c \<noteq> []
        then (''[[Cell '' @ str_int (i + 1) @ '' - Output]]\<newline>'')
             # outputs_loop unescape i 0 (outputs c)
        else [])
     @ [''\<newline>'']"

fun cells_loop :: "(string \<Rightarrow> string) \<Rightarrow> int \<Rightarrow> cell list \<Rightarrow> string list" where
  "cells_loop unescape i [] = []"
| "cells_loop unescape i (c # rest) = cell_block unescape i c @ cells_loop unescape (i + 1) rest"

definition get_formatted_content :: "(string \<Rightarrow> string) \<Rightarrow> fs \<Rightarrow> string \<Rightarrow> content_reply" where
  "get_formatted_content unescape st path =
     (case read_notebook st path of (notebook, err) \<Rightarrow>
        if truthy err then \<lparr>error = err, filepath = path, formatted_content = []\<rparr>
        else \<lparr>error = err, filepath = path,
              formatted_content =
                concat (case notebook of None \<Rightarrow> [] | Some nb \<Rightarrow> cells_loop unescape 0 (cells nb))\<rparr>)"

section \<open>The full output of one cell output\<close>

text \<open>
  \<^verbatim>\<open>full_output_data\<close> is a string, or for an error output the dictionary of its three
  fields.  \<^verbatim>\<open>json.dumps\<close> belongs to Python's library and is the parameter \<open>json_dumps\<close>.
\<close>

datatype payload = Str string | ErrorDict string string "string list"

record output_reply = reply +
  full_output_data :: "payload option"
  mime_type :: "string option"

text \<open>The dispatch on the type of the output, after the three checks of the indices.\<close>

definition select_output ::
  "((string \<times> string) list \<Rightarrow> string) \<Rightarrow> nb_output \<Rightarrow> string option \<Rightarrow> payload option \<times> string option" where
  "select_output json_dumps output type_hint =
     (if output_type output = ''stream'' then
        (Some (Str (stream_text output)), Some (''text/'' @ stream_name output))
      else if output_type output \<in> set [''display_data'', ''execute_result''] then
        (if type_hint = Some ''image'' \<and> has_key (data output) ''image/png'' then
           (Some (Str (lookup (data output) ''image/png'')), Some ''image/png'')
         else if type_hint = Some ''text'' \<and> has_key (data output) ''text/plain'' then
           (Some (Str (lookup (data output) ''text/plain'')), Some ''text/plain'')
         else if type_hint = Some ''table'' \<and> has_key (data output) ''text/html'' then
           (Some (Str (lookup (data output) ''text/html'')), Some ''text/html'')
         else if has_key (data output) ''text/plain'' then
           (Some (Str (lookup (data output) ''text/plain'')), Some ''text/plain'')
         else if has_key (data output) ''image/png'' then
           (Some (Str (lookup (data output) ''image/png'')), Some ''image/png'')
         else (Some (Str (json_dumps (data output))), Some ''application/json''))
      else if output_type output = ''error'' then
        (Some (ErrorDict (ename output) (evalue output) (traceback output)),
         Some ''application/json'')
      else (None, None))"

definition output_failure :: "string option \<Rightarrow> output_reply" where
  "output_failure err = \<lparr>error = err, full_output_data = None, mime_type = None\<rparr>"

definition get_full_output ::
  "((string \<times> string) list \<Rightarrow> string) \<Rightarrow> fs \<Rightarrow> string \<Rightarrow> int \<Rightarrow> int \<Rightarrow> string option \<Rightarrow> output_reply" where
  "get_full_output json_dumps st path cell_index output_index type_hint =
     (case read_notebook st path of (notebook, err) \<Rightarrow>
        if truthy err then output_failure err
        else (case notebook of
           None \<Rightarrow> output_failure err
         | Some nb \<Rightarrow>
            (let adjusted_cell_index = cell_index - 1;
                 adjusted_output_index = output_index - 1
             in if \<not> (0 \<le> adjusted_cell_index \<and> adjusted_cell_index < int (length (cells nb))) then
                  output_failure (Some (''Cell index '' @ str_int cell_index
                    @ '' out of bounds. Please use a 1-based index.''))
                else
                  (let c = cells nb ! nat adjusted_cell_index
                   in if cell_type c \<noteq> ''code'' \<or> outputs c = [] then
                        output_failure (Some (''Cell '' @ str_int cell_index
                          @ '' is not a code cell or has no outputs.''))
                      else if \<not> (0 \<le> adjusted_output_index
                                  \<and> adjusted_output_index < int (length (outputs c))) then
                        output_failure (Some (''Output index '' @ str_int output_index
                          @ '' out of bounds for cell '' @ str_int cell_index
                          @ ''. Please use a 1-based index.''))
                      else
                        (case select_output json_dumps (outputs c ! nat adjusted_output_index) type_hint
                         of (full, mime) \<Rightarrow>
                           \<lparr>error = None, full_output_data = full, mime_type = mime\<rparr>)))))"

section \<open>The structural editor\<close>

text \<open>
  Every editing tool reads the notebook, checks its arguments, changes the notebook in
  memory and writes it back.  The part between the read and the write is a function of
  its own here: it gives the notebook as it is in memory when the tool returns or writes,
  and the message of the check that failed, if one did.
\<close>

text \<open>\<^verbatim>\<open>xs.insert(i, x)\<close> and \<^verbatim>\<open>del xs[i]\<close> for an index within the list.\<close>

definition insert_at :: "nat \<Rightarrow> 'a \<Rightarrow> 'a list \<Rightarrow> 'a list" where
  "insert_at i x xs = take i xs @ x # drop i xs"

definition del_at :: "nat \<Rightarrow> 'a list \<Rightarrow> 'a list" where
  "del_at i xs = take i xs @ drop (Suc i) xs"

definition edit_failure :: "string \<Rightarrow> string option \<Rightarrow> edit_reply" where
  "edit_failure path err = \<lparr>error = err, filepath = path, success = False\<rparr>"

definition add_failure :: "string \<Rightarrow> string option \<Rightarrow> add_reply" where
  "add_failure path err =
     \<lparr>error = err, filepath = path, success = False, new_cell_actual_index = - 1\<rparr>"

text \<open>The end of the four tools: write the notebook, report what the write reported.\<close>

definition persist :: "fs \<Rightarrow> notebook \<Rightarrow> string \<Rightarrow> fs \<times> edit_reply" where
  "persist st nb path =
     (case write_notebook st nb path of (st', ok, err) \<Rightarrow>
        (st', \<lparr>error = err, filepath = path, success = ok\<rparr>))"

subsection \<open>edit_cell\<close>

definition edit_in_memory :: "notebook \<Rightarrow> int \<Rightarrow> string \<Rightarrow> notebook \<times> string option" where
  "edit_in_memory nb cell_index new_source_content =
     (let adjusted_cell_index = cell_index - 1
      in if \<not> (0 \<le> adjusted_cell_index \<and> adjusted_cell_index < int (length (cells nb))) then
           (nb, Some (''Cell index '' @ str_int cell_index
                      @ '' out of bounds. Please use a 1-based index.''))
         else
           (let k = nat adjusted_cell_index;
                nb1 = nb\<lparr>cells := (cells nb)[k := (cells nb ! k)\<lparr>source := new_source_content\<rparr>]\<rparr>;
                nb2 = (if cell_type (cells nb1 ! k) = ''code''
                       then nb1\<lparr>cells := (cells nb1)[k := (cells nb1 ! k)\<lparr>outputs := []\<rparr>]\<rparr>
                       else nb1)
            in (nb2, None)))"

definition edit_cell :: "fs \<Rightarrow> string \<Rightarrow> int \<Rightarrow> string \<Rightarrow> fs \<times> edit_reply" where
  "edit_cell st path cell_index new_source_content =
     (case read_notebook st path of (notebook, err) \<Rightarrow>
        if truthy err then (st, edit_failure path err)
        else (case notebook of
           None \<Rightarrow> (st, edit_failure path err)
         | Some nb \<Rightarrow>
            (case edit_in_memory nb cell_index new_source_content of
               (nb', Some msg) \<Rightarrow> (st, edit_failure path (Some msg))
             | (nb', None) \<Rightarrow> persist st nb' path)))"

subsection \<open>add_cell\<close>

definition add_in_memory :: "notebook \<Rightarrow> int \<Rightarrow> string \<Rightarrow> string \<Rightarrow> notebook \<times> string option" where
  "add_in_memory nb cell_index kind source_content =
     (let adjusted_cell_index = cell_index - 1
      in if \<not> (0 \<le> adjusted_cell_index \<and> adjusted_cell_index \<le> int (length (cells nb))) then
           (nb, Some (''Cell index '' @ str_int cell_index
                      @ '' out of bounds for adding. Please use a 1-based index.''))
         else if kind = ''code'' then
           (nb\<lparr>cells := insert_at (nat adjusted_cell_index) (new_code_cell source_content) (cells nb)\<rparr>,
            None)
         else if kind = ''markdown'' then
           (nb\<lparr>cells := insert_at (nat adjusted_cell_index) (new_markdown_cell source_content) (cells nb)\<rparr>,
            None)
         else (nb, Some (''Invalid cell type: '' @ kind @ ''. Must be 'code' or 'markdown'.'')))"

definition add_cell :: "fs \<Rightarrow> string \<Rightarrow> int \<Rightarrow> string \<Rightarrow> string \<Rightarrow> fs \<times> add_reply" where
  "add_cell st path cell_index kind source_content =
     (case read_notebook st path of (notebook, err) \<Rightarrow>
        if truthy err then (st, add_failure path err)
        else (case notebook of
           None \<Rightarrow> (st, add_failure path err)
         | Some nb \<Rightarrow>
            (case add_in_memory nb cell_index kind source_content of
               (nb', Some msg) \<Rightarrow> (st, add_failure path (Some msg))
             | (nb', None) \<Rightarrow>
                (case write_notebook st nb' path of (st', ok, werr) \<Rightarrow>
                   (st', \<lparr>error = werr, filepath = path, success = ok,
                          new_cell_actual_index = (if ok then cell_index else - 1)\<rparr>)))))"

subsection \<open>delete_cell\<close>

definition delete_in_memory :: "notebook \<Rightarrow> int \<Rightarrow> notebook \<times> string option" where
  "delete_in_memory nb cell_index =
     (let adjusted_cell_index = cell_index - 1
      in if \<not> (0 \<le> adjusted_cell_index \<and> adjusted_cell_index < int (length (cells nb))) then
           (nb, Some (''Cell index '' @ str_int cell_index
                      @ '' out of bounds. Please use a 1-based index.''))
         else (nb\<lparr>cells := del_at (nat adjusted_cell_index) (cells nb)\<rparr>, None))"

definition delete_cell :: "fs \<Rightarrow> string \<Rightarrow> int \<Rightarrow> fs \<times> edit_reply" where
  "delete_cell st path cell_index =
     (case read_notebook st path of (notebook, err) \<Rightarrow>
        if truthy err then (st, edit_failure path err)
        else (case notebook of
           None \<Rightarrow> (st, edit_failure path err)
         | Some nb \<Rightarrow>
            (case delete_in_memory nb cell_index of
               (nb', Some msg) \<Rightarrow> (st, edit_failure path (Some msg))
             | (nb', None) \<Rightarrow> persist st nb' path)))"

subsection \<open>merge_cells\<close>

definition merge_in_memory :: "notebook \<Rightarrow> int \<Rightarrow> int \<Rightarrow> notebook \<times> string option" where
  "merge_in_memory nb cell_index1 cell_index2 =
     (let adj_idx1 = cell_index1 - 1;
          adj_idx2 = cell_index2 - 1
      in if \<not> (0 \<le> adj_idx1 \<and> adj_idx1 < int (length (cells nb)))
            \<or> \<not> (0 \<le> adj_idx2 \<and> adj_idx2 < int (length (cells nb))) then
           (nb, Some (''One or both cell indices ('' @ str_int cell_index1 @ '', ''
                      @ str_int cell_index2 @ '') are out of bounds.''))
         else if adj_idx2 \<noteq> adj_idx1 + 1 then
           (nb, Some (''Cells are not consecutive. Cell '' @ str_int cell_index2
                      @ '' is not immediately after cell '' @ str_int cell_index1 @ ''.''))
         else
           (let cell1 = cells nb ! nat adj_idx1;
                cell2 = cells nb ! nat adj_idx2;
                merged_source = source cell1 @ ''\<newline>'' @ source cell2;
                merged_cell_type =
                  (if cell_type cell1 = ''code'' \<and> cell_type cell2 = ''code''
                   then ''code'' else ''markdown'');
                merged_cell =
                  (if merged_cell_type = ''code''
                   then (new_code_cell merged_source)\<lparr>outputs := []\<rparr>
                   else new_markdown_cell merged_source);
                nb1 = nb\<lparr>cells := (cells nb)[nat adj_idx1 := merged_cell]\<rparr>;
                nb2 = nb1\<lparr>cells := del_at (nat adj_idx2) (cells nb1)\<rparr>
            in (nb2, None)))"

definition merge_cells :: "fs \<Rightarrow> string \<Rightarrow> int \<Rightarrow> int \<Rightarrow> fs \<times> edit_reply" where
  "merge_cells st path cell_index1 cell_index2 =
     (case read_notebook st path of (notebook, err) \<Rightarrow>
        if truthy err then (st, edit_failure path err)
        else (case notebook of
           None \<Rightarrow> (st, edit_failure path err)
         | Some nb \<Rightarrow>
            (case merge_in_memory nb cell_index1 cell_index2 of
               (nb', Some msg) \<Rightarrow> (st, edit_failure path (Some msg))
             | (nb', None) \<Rightarrow> persist st nb' path)))"

section \<open>The selection policy in the words of the specification\<close>

text \<open>
  The specification of the full-payload fetch: a type hint names a payload key
  (\<^verbatim>\<open>image\<close> is \<^verbatim>\<open>image/png\<close>, \<^verbatim>\<open>text\<close> is \<^verbatim>\<open>text/plain\<close>, \<^verbatim>\<open>table\<close> is \<^verbatim>\<open>text/html\<close>) and is
  honoured when the output has that key; otherwise the choice falls through to
  \<^verbatim>\<open>text/plain\<close>, then \<^verbatim>\<open>image/png\<close>, then the JSON encoding of all the payload.  These three
  definitions follow that sentence, not the code; the theorem of claim C8 compares them
  with \<open>get_full_output\<close>.
\<close>

definition spec_hint_key :: "string option \<Rightarrow> string option" where
  "spec_hint_key type_hint =
     (if type_hint = Some ''image'' then Some ''image/png''
      else if type_hint = Some ''text'' then Some ''text/plain''
      else if type_hint = Some ''table'' then Some ''text/html''
      else None)"

definition spec_fallback ::
  "((string \<times> string) list \<Rightarrow> string) \<Rightarrow> (string \<times> string) list \<Rightarrow> string \<times> string" where
  "spec_fallback json_dumps d =
     (if has_key d ''text/plain'' then (lookup d ''text/plain'', ''text/plain'')
      else if has_key d ''image/png'' then (lookup d ''image/png'', ''image/png'')
      else (json_dumps d, ''application/json''))"

definition spec_select ::
  "((string \<times> string) list \<Rightarrow> string) \<Rightarrow> (string \<times> string) list \<Rightarrow> string option \<Rightarrow> string \<times> string" where
  "spec_select json_dumps d type_hint =
     (case spec_hint_key type_hint of
        Some k \<Rightarrow> if has_key d k then (lookup d k, k) else spec_fallback json_dumps d
      | None \<Rightarrow> spec_fallback json_dumps d)"

section \<open>Example documents\<close>

definition ex_stream :: nb_output where
  "ex_stream = \<lparr>output_type = ''stream'', stream_name = ''stdout'', stream_text = ''1'',
                 data = [], ename = [], evalue = [], traceback = []\<rparr>"

definition ex_notebook :: notebook where
  "ex_notebook =
     \<lparr>cells = [\<lparr>cell_type = ''code'', source = ''x=1'', outputs = [ex_stream]\<rparr>,
               \<lparr>cell_type = ''code'', source = ''print(x)'', outputs = [ex_stream]\<rparr>,
               \<lparr>cell_type = ''markdown'', source = ''notes'', outputs = []\<rparr>]\<rparr>"

definition ex_fs :: fs where
  "ex_fs = \<lparr>files = [''nb.ipynb'' \<mapsto> Inr ex_notebook], write_error = Map.empty\<rparr>"

definition ex_result :: nb_output where
  "ex_result = \<lparr>output_type = ''execute_result'', stream_name = [], stream_text = [],
                 data = [(''text/html'', ''<table></table>''), (''text/plain'', ''df'')],
                 ename = [], evalue = [], traceback = []\<rparr>"

definition ex_unknown :: nb_output where
  "ex_unknown = \<lparr>output_type = ''update_display_data'', stream_name = [], stream_text = [],
                 data = [(''text/plain'', ''df'')],
                 ename = [], evalue = [], traceback = []\<rparr>"

definition ex_results_fs :: fs where
  "ex_results_fs =
     \<lparr>files = [''r.ipynb'' \<mapsto> Inr \<lparr>cells = [\<lparr>cell_type = ''code'', source = ''df'',
                                                  outputs = [ex_result]\<rparr>]\<rparr>],
      write_error = Map.empty\<rparr>"

definition ex_unknown_fs :: fs where
  "ex_unknown_fs =
     \<lparr>files = [''u.ipynb'' \<mapsto> Inr \<lparr>cells = [\<lparr>cell_type = ''code'', source = ''x'',
                                                  outputs = [ex_unknown]\<rparr>]\<rparr>],
      write_error = Map.empty\<rparr>"

text \<open>
  Three HTML payloads without an ampersand, on which \<^verbatim>\<open>html.unescape\<close> returns its
  argument: a table of eight body rows, the same table with a first body row that has a
  header cell and no data cell, and a small table whose tag is written \<^verbatim>\<open><Table>\<close>.
\<close>

definition ex_table8 :: string where
  "ex_table8 = ''<table><thead><tr><th>n</th></tr></thead><tbody><tr><td>1</td></tr><tr><td>2</td></tr><tr><td>3</td></tr><tr><td>4</td></tr><tr><td>5</td></tr><tr><td>6</td></tr><tr><td>7</td></tr><tr><td>8</td></tr></tbody></table>''"

definition ex_table_gap :: string where
  "ex_table_gap = ''<table><thead><tr><th>n</th></tr></thead><tbody><tr><th>1</th></tr><tr><td>2</td></tr><tr><td>3</td></tr><tr><td>4</td></tr><tr><td>5</td></tr><tr><td>6</td></tr><tr><td>7</td></tr><tr><td>8</td></tr></tbody></table>''"

definition ex_mixed :: nb_output where
  "ex_mixed = \<lparr>output_type = ''display_data'', stream_name = [], stream_text = [],
                data = [(''text/html'', ''<Table><thead><tr><th>n</th></tr></thead><tbody><tr><td>1</td></tr></tbody></Table>''),
                        (''text/plain'', ''n 1'')],
                ename = [], evalue = [], traceback = []\<rparr>"

section \<open>Facts shared by the proofs\<close>

lemma str_int_digits:
  "str_int 1 = ''1''" "str_int 2 = ''2''" "str_int 3 = ''3''" "str_int 4 = ''4''"
  by (simp_all add: str_int_def str_nat.simps digit_char_def)

lemma read_notebook_ok:
  "files st path = Some (Inr nb) \<Longrightarrow> read_notebook st path = (Some nb, None)"
  by (simp add: read_notebook_def)

lemma persist_ok:
  "write_error st path = None \<Longrightarrow>
   persist st nb path =
     (st\<lparr>files := (files st)(path \<mapsto> Inr nb)\<rparr>,
      \<lparr>error = None, filepath = path, success = True\<rparr>)"
  by (simp add: persist_def write_notebook_def)

lemma del_after_update:
  "Suc k < length xs \<Longrightarrow> del_at (Suc k) (xs[k := m]) = take k xs @ m # drop (k + 2) xs"
  by (simp add: del_at_def take_Suc_conv_app_nth)

lemma del_at_insert_at: "k \<le> length xs \<Longrightarrow> del_at k (insert_at k x xs) = xs"
  by (simp add: del_at_def insert_at_def min_def)

lemma add_in_memory_ok:
  assumes "1 \<le> k" and "k \<le> int (length (cells nb)) + 1"
    and "kind = ''code'' \<or> kind = ''markdown''"
  shows "add_in_memory nb k kind src =
           (nb\<lparr>cells := insert_at (nat (k - 1))
                   (if kind = ''code'' then new_code_cell src else new_markdown_cell src)
                   (cells nb)\<rparr>, None)"
  using assms by (auto simp add: add_in_memory_def Let_def)

lemma select_output_result:
  assumes "output_type out = ''display_data'' \<or> output_type out = ''execute_result''"
  shows "select_output json_dumps out type_hint =
     (Some (Str (fst (spec_select json_dumps (data out) type_hint))),
      Some (snd (spec_select json_dumps (data out) type_hint)))"
proof -
  have ns: "output_type out \<noteq> ''stream''"
    using assms by auto
  have m: "output_type out \<in> set [''display_data'', ''execute_result'']"
    using assms by auto
  have unfolded: "select_output json_dumps out type_hint =
        (if type_hint = Some ''image'' \<and> has_key (data out) ''image/png'' then
           (Some (Str (lookup (data out) ''image/png'')), Some ''image/png'')
         else if type_hint = Some ''text'' \<and> has_key (data out) ''text/plain'' then
           (Some (Str (lookup (data out) ''text/plain'')), Some ''text/plain'')
         else if type_hint = Some ''table'' \<and> has_key (data out) ''text/html'' then
           (Some (Str (lookup (data out) ''text/html'')), Some ''text/html'')
         else if has_key (data out) ''text/plain'' then
           (Some (Str (lookup (data out) ''text/plain'')), Some ''text/plain'')
         else if has_key (data out) ''image/png'' then
           (Some (Str (lookup (data out) ''image/png'')), Some ''image/png'')
         else (Some (Str (json_dumps (data out))), Some ''application/json''))"
    unfolding select_output_def using ns m by (simp only: if_False if_True)
  consider (h_image) "type_hint = Some ''image''" | (h_text) "type_hint = Some ''text''"
    | (h_table) "type_hint = Some ''table''"
    | (h_other) "type_hint \<noteq> Some ''image''" "type_hint \<noteq> Some ''text''"
        "type_hint \<noteq> Some ''table''"
    by blast
  then show ?thesis
  proof cases
    case h_image
    show ?thesis unfolding unfolded
      by (simp add: h_image spec_select_def spec_hint_key_def spec_fallback_def)
  next
    case h_text
    show ?thesis unfolding unfolded
      by (simp add: h_text spec_select_def spec_hint_key_def spec_fallback_def)
  next
    case h_table
    show ?thesis unfolding unfolded
      by (simp add: h_table spec_select_def spec_hint_key_def spec_fallback_def)
  next
    case h_other
    show ?thesis unfolding unfolded
      by (simp add: h_other spec_select_def spec_hint_key_def spec_fallback_def)
  qed
qed

lemma outputs_loop_append:
  "outputs_loop ue i j (xs @ ys) = outputs_loop ue i j xs @ outputs_loop ue i (j + int (length xs)) ys"
  by (induction xs arbitrary: j) (simp_all add: algebra_simps)

lemma cells_loop_append:
  "cells_loop ue i (xs @ ys) = cells_loop ue i xs @ cells_loop ue (i + int (length xs)) ys"
  by (induction xs arbitrary: i) (simp_all add: algebra_simps)

lemma capitalize_code: "capitalize ''code'' = ''Code''"
  by code_simp

lemma strip_x: "strip ''x'' = ''x''"
  by code_simp

lemma unrecognized_summary:
  "output_type out \<notin> set [''stream'', ''display_data'', ''execute_result'', ''error''] \<Longrightarrow>
   output_summary ue i j out = []"
  by (simp add: output_summary_def)

lemma body_rows_bounded:
  "body_rows ue i trs =
     map (\<lambda>tr. pipe_row ue (findall_element ''td'' tr))
         (filter (\<lambda>tr. findall_element ''td'' tr \<noteq> []) (take (MAX_TABLE_ROWS - i) trs))"
proof (induction trs arbitrary: i)
  case Nil
  show ?case by simp
next
  case (Cons tr trs)
  show ?case
  proof (cases "i \<ge> MAX_TABLE_ROWS")
    case True
    then show ?thesis by simp
  next
    case False
    then obtain d where d: "MAX_TABLE_ROWS - i = Suc d" and d': "MAX_TABLE_ROWS - Suc i = d"
      by (cases "MAX_TABLE_ROWS - i") auto
    show ?thesis
      using False by (simp add: Cons.IH d d' Let_def)
  qed
qed

lemma ex8_head: "search_element ''thead'' ex_table8 = Some (''<tr><th>n</th></tr>'', ''<tbody><tr><td>1</td></tr><tr><td>2</td></tr><tr><td>3</td></tr><tr><td>4</td></tr><tr><td>5</td></tr><tr><td>6</td></tr><tr><td>7</td></tr><tr><td>8</td></tr></tbody></table>'')"
  by code_simp

lemma ex8_body: "search_element ''tbody'' ex_table8 = Some (''<tr><td>1</td></tr><tr><td>2</td></tr><tr><td>3</td></tr><tr><td>4</td></tr><tr><td>5</td></tr><tr><td>6</td></tr><tr><td>7</td></tr><tr><td>8</td></tr>'', ''</table>'')"
  by code_simp

lemma ex8_ths: "findall_element ''th'' ''<tr><th>n</th></tr>'' = [''n'']"
  by code_simp

lemma ex8_trs: "findall_element ''tr'' ''<tr><td>1</td></tr><tr><td>2</td></tr><tr><td>3</td></tr><tr><td>4</td></tr><tr><td>5</td></tr><tr><td>6</td></tr><tr><td>7</td></tr><tr><td>8</td></tr>'' = [''<td>1</td>'', ''<td>2</td>'', ''<td>3</td>'', ''<td>4</td>'', ''<td>5</td>'', ''<td>6</td>'', ''<td>7</td>'', ''<td>8</td>'']"
  by code_simp

lemma ex8_rows:
  "map (\<lambda>tr. pipe_row (\<lambda>s. s) (findall_element ''td'' tr))
     (filter (\<lambda>tr. findall_element ''td'' tr \<noteq> [])
        (take 5 [''<td>1</td>'', ''<td>2</td>'', ''<td>3</td>'', ''<td>4</td>'', ''<td>5</td>'',
                 ''<td>6</td>'', ''<td>7</td>'', ''<td>8</td>''])) =
   [''| 1 |'', ''| 2 |'', ''| 3 |'', ''| 4 |'', ''| 5 |'']"
  by code_simp

lemma ex8_header_row: "pipe_row (\<lambda>s. s) [''n''] = ''| n |''"
  by code_simp

lemma gap_head: "search_element ''thead'' ex_table_gap = Some (''<tr><th>n</th></tr>'', ''<tbody><tr><th>1</th></tr><tr><td>2</td></tr><tr><td>3</td></tr><tr><td>4</td></tr><tr><td>5</td></tr><tr><td>6</td></tr><tr><td>7</td></tr><tr><td>8</td></tr></tbody></table>'')"
  by code_simp

lemma gap_body: "search_element ''tbody'' ex_table_gap = Some (''<tr><th>1</th></tr><tr><td>2</td></tr><tr><td>3</td></tr><tr><td>4</td></tr><tr><td>5</td></tr><tr><td>6</td></tr><tr><td>7</td></tr><tr><td>8</td></tr>'', ''</table>'')"
  by code_simp

lemma gap_trs: "findall_element ''tr'' ''<tr><th>1</th></tr><tr><td>2</td></tr><tr><td>3</td></tr><tr><td>4</td></tr><tr><td>5</td></tr><tr><td>6</td></tr><tr><td>7</td></tr><tr><td>8</td></tr>'' = [''<th>1</th>'', ''<td>2</td>'', ''<td>3</td>'', ''<td>4</td>'', ''<td>5</td>'', ''<td>6</td>'', ''<td>7</td>'', ''<td>8</td>'']"
  by code_simp

lemma gap_output: "format_table_output (\<lambda>s. s) ex_table_gap 2 1 =
  ''Table (HTML): \<newline>```markdown\<newline>| n |\<newline>|---|\<newline>| 2 |\<newline>| 3 |\<newline>| 4 |\<newline>| 5 |\<newline>... [TRUNCATED]\<newline>```\<newline>Use `get_full_output` for full content. (cell 2 [1-based], output 1 [1-based])''"
  by code_simp

lemma mixed_no_lower: "\<not> contains ''<table'' ''<Table><thead><tr><th>n</th></tr></thead><tbody><tr><td>1</td></tr></tbody></Table>''"
  by code_simp

lemma mixed_no_upper: "\<not> contains ''<TABLE'' ''<Table><thead><tr><th>n</th></tr></thead><tbody><tr><td>1</td></tr></tbody></Table>''"
  by code_simp

lemma mixed_extracted:
  "format_table_output (\<lambda>s. s) ''<Table><thead><tr><th>n</th></tr></thead><tbody><tr><td>1</td></tr></tbody></Table>'' 1 1 =
     ''Table (HTML): \<newline>```markdown\<newline>| n |\<newline>|---|\<newline>| 1 |\<newline>```\<newline>Use `get_full_output` for full content. (cell 1 [1-based], output 1 [1-based])''"
  by code_simp

lemma table_tag_delegated:
  assumes "output_type out = ''display_data'' \<or> output_type out = ''execute_result''"
    and "\<not> has_key (data out) ''image/png''" and "has_key (data out) ''text/html''"
    and "contains ''<table'' (lookup (data out) ''text/html'')
         \<or> contains ''<TABLE'' (lookup (data out) ''text/html'')"
  shows "output_summary ue i j out =
           format_table_output ue (lookup (data out) ''text/html'') (i + 1) (j + 1)"
proof -
  have ns: "output_type out \<noteq> ''stream''"
    using assms(1) by auto
  show ?thesis
    unfolding output_summary_def using ns assms by (simp only: if_False if_True simp_thms)
qed

section \<open>Merging two cells\<close>

text \<open>
  Claim C1.  For a notebook \<open>nb\<close> and 1-based indices \<open>a\<close> and \<open>a + 1\<close> that both name a
  cell, \<open>merge_cells\<close> leaves in memory the notebook \<open>nb'\<close> in which the cell at \<open>a\<close> is the
  merged cell and the cell at \<open>a + 1\<close> is gone: the merged cell has the source of the first
  cell, one line feed and the source of the second, it has no outputs, its kind is
  \<open>code\<close> when both cells are code cells and \<open>markdown\<close> otherwise, in particular when one
  of the two is a markdown cell.  The notebook has one cell less, and when the file can be
  written the call succeeds and the file holds \<open>nb'\<close>.
\<close>

theorem merge_cells_adjacent:
  assumes "files st path = Some (Inr nb)"
    and "1 \<le> a" and "a + 1 \<le> int (length (cells nb))"
    and "k = nat (a - 1)"
    and "cell1 = cells nb ! k" and "cell2 = cells nb ! (k + 1)"
    and "merged = \<lparr>cell_type = (if cell_type cell1 = ''code'' \<and> cell_type cell2 = ''code''
                                 then ''code'' else ''markdown''),
                    source = source cell1 @ ''\<newline>'' @ source cell2,
                    outputs = []\<rparr>"
    and "nb' = nb\<lparr>cells := take k (cells nb) @ merged # drop (k + 2) (cells nb)\<rparr>"
  shows "merge_in_memory nb a (a + 1) = (nb', None)
         \<and> cells nb' ! k = merged
         \<and> length (cells nb') + 1 = length (cells nb)
         \<and> (cell_type cell1 = ''markdown'' \<or> cell_type cell2 = ''markdown''
              \<longrightarrow> cell_type merged = ''markdown'')
         \<and> (write_error st path = None \<longrightarrow>
              merge_cells st path a (a + 1) =
                (st\<lparr>files := (files st)(path \<mapsto> Inr nb')\<rparr>,
                 \<lparr>error = None, filepath = path, success = True\<rparr>))"
proof -
  have k: "Suc k < length (cells nb)" and a1: "nat a = Suc k" and a2: "nat (a - 1) = k"
    using assms(2-4) by simp_all
  have m: "merge_in_memory nb a (a + 1) = (nb', None)"
    using assms(2,3) k
    by (simp add: merge_in_memory_def Let_def a1 a2 del_after_update assms(5-8)
        new_code_cell_def new_markdown_cell_def)
  have n: "cells nb' ! k = merged"
    using k by (simp add: assms(8) nth_append)
  have l: "length (cells nb') + 1 = length (cells nb)"
    using k by (simp add: assms(8))
  have t: "cell_type cell1 = ''markdown'' \<or> cell_type cell2 = ''markdown''
              \<longrightarrow> cell_type merged = ''markdown''"
    by (auto simp add: assms(7))
  have w: "write_error st path = None \<longrightarrow>
              merge_cells st path a (a + 1) =
                (st\<lparr>files := (files st)(path \<mapsto> Inr nb')\<rparr>,
                 \<lparr>error = None, filepath = path, success = True\<rparr>)"
    using m assms(1) by (simp add: merge_cells_def read_notebook_ok truthy_def persist_ok)
  from m n l t w show ?thesis by blast
qed

theorem merge_cells_adjacent_witness:
  "files ex_fs ''nb.ipynb'' = Some (Inr ex_notebook)
   \<and> (1::int) \<le> 1 \<and> (1::int) + 1 \<le> int (length (cells ex_notebook))
   \<and> write_error ex_fs ''nb.ipynb'' = None
   \<and> merge_cells ex_fs ''nb.ipynb'' 1 (1 + 1) =
       (ex_fs\<lparr>files := (files ex_fs)(''nb.ipynb'' \<mapsto> Inr
          \<lparr>cells = [\<lparr>cell_type = ''code'', source = ''x=1\<newline>print(x)'', outputs = []\<rparr>,
                    \<lparr>cell_type = ''markdown'', source = ''notes'', outputs = []\<rparr>]\<rparr>)\<rparr>,
        \<lparr>error = None, filepath = ''nb.ipynb'', success = True\<rparr>)"
  using merge_cells_adjacent [where st = ex_fs and path = "''nb.ipynb''" and nb = ex_notebook
      and a = 1, OF _ _ _ refl refl refl refl refl]
  by (simp add: ex_fs_def ex_notebook_def)

text \<open>
  Claim C2.  When both 1-based indices name a cell of the notebook and the second is not
  the first plus one, \<open>merge_cells\<close> returns at its check: the notebook in memory is the
  one that was read, the files are as they were, \<open>success\<close> is false and the error says
  that the cells are not consecutive.
\<close>

theorem merge_non_adjacent_rejected:
  assumes "files st path = Some (Inr nb)"
    and "1 \<le> cell_index1" and "cell_index1 \<le> int (length (cells nb))"
    and "1 \<le> cell_index2" and "cell_index2 \<le> int (length (cells nb))"
    and "cell_index2 \<noteq> cell_index1 + 1"
  shows "merge_in_memory nb cell_index1 cell_index2 =
           (nb, Some (''Cells are not consecutive. Cell '' @ str_int cell_index2
                      @ '' is not immediately after cell '' @ str_int cell_index1 @ ''.''))
         \<and> merge_cells st path cell_index1 cell_index2 =
           (st, \<lparr>error = Some (''Cells are not consecutive. Cell '' @ str_int cell_index2
                      @ '' is not immediately after cell '' @ str_int cell_index1 @ ''.''),
                 filepath = path, success = False\<rparr>)"
proof -
  have m: "merge_in_memory nb cell_index1 cell_index2 =
           (nb, Some (''Cells are not consecutive. Cell '' @ str_int cell_index2
                      @ '' is not immediately after cell '' @ str_int cell_index1 @ ''.''))"
    using assms(2-6) by (simp add: merge_in_memory_def Let_def)
  show ?thesis
    using m assms(1) by (simp add: merge_cells_def read_notebook_ok truthy_def edit_failure_def)
qed

theorem merge_non_adjacent_rejected_witness:
  "files ex_fs ''nb.ipynb'' = Some (Inr ex_notebook)
   \<and> (1::int) \<le> 1 \<and> (1::int) \<le> int (length (cells ex_notebook))
   \<and> (1::int) \<le> 3 \<and> (3::int) \<le> int (length (cells ex_notebook)) \<and> (3::int) \<noteq> 1 + 1
   \<and> merge_cells ex_fs ''nb.ipynb'' 1 3 =
       (ex_fs, \<lparr>error = Some ''Cells are not consecutive. Cell 3 is not immediately after cell 1.'',
                filepath = ''nb.ipynb'', success = False\<rparr>)"
  using merge_non_adjacent_rejected [where st = ex_fs and path = "''nb.ipynb''"
      and nb = ex_notebook and ?cell_index1.0 = 1 and ?cell_index2.0 = 3]
  by (simp add: ex_fs_def ex_notebook_def str_int_digits)

section \<open>Replacing the source of a cell\<close>

text \<open>
  Claim C3.  For a 1-based index that names a cell \<open>c\<close> of the notebook, \<open>edit_cell\<close>
  leaves in memory the notebook in which that cell has the new source and, exactly when
  \<open>c\<close> is a code cell, no outputs; the outputs of a cell of another kind are the ones it
  had, and no other cell changes.  When the file can be written the call succeeds and the
  file holds that notebook.
\<close>

theorem edit_cell_replaces_source:
  assumes "files st path = Some (Inr nb)"
    and "1 \<le> cell_index" and "cell_index \<le> int (length (cells nb))"
    and "k = nat (cell_index - 1)" and "c = cells nb ! k"
    and "nb' = nb\<lparr>cells := (cells nb)[k := c\<lparr>source := new_source_content,
                  outputs := (if cell_type c = ''code'' then [] else outputs c)\<rparr>]\<rparr>"
  shows "edit_in_memory nb cell_index new_source_content = (nb', None)
         \<and> (write_error st path = None \<longrightarrow>
              edit_cell st path cell_index new_source_content =
                (st\<lparr>files := (files st)(path \<mapsto> Inr nb')\<rparr>,
                 \<lparr>error = None, filepath = path, success = True\<rparr>))"
proof -
  have k: "k < length (cells nb)" using assms(2-4) by simp
  have m: "edit_in_memory nb cell_index new_source_content = (nb', None)"
    using assms(2,3) k
    unfolding edit_in_memory_def Let_def assms(4)[symmetric] assms(5)[symmetric] assms(6)
    by (simp add: assms(5))
  show ?thesis
    using m assms(1) by (simp add: edit_cell_def read_notebook_ok truthy_def persist_ok)
qed

theorem edit_cell_replaces_source_witness:
  "files ex_fs ''nb.ipynb'' = Some (Inr ex_notebook)
   \<and> (1::int) \<le> 2 \<and> (2::int) \<le> int (length (cells ex_notebook))
   \<and> write_error ex_fs ''nb.ipynb'' = None
   \<and> edit_cell ex_fs ''nb.ipynb'' 2 ''y=2'' =
       (ex_fs\<lparr>files := (files ex_fs)(''nb.ipynb'' \<mapsto> Inr
          \<lparr>cells = [\<lparr>cell_type = ''code'', source = ''x=1'', outputs = [ex_stream]\<rparr>,
                    \<lparr>cell_type = ''code'', source = ''y=2'', outputs = []\<rparr>,
                    \<lparr>cell_type = ''markdown'', source = ''notes'', outputs = []\<rparr>]\<rparr>)\<rparr>,
        \<lparr>error = None, filepath = ''nb.ipynb'', success = True\<rparr>)"
  using edit_cell_replaces_source [where st = ex_fs and path = "''nb.ipynb''" and nb = ex_notebook
      and cell_index = 2 and new_source_content = "''y=2''", OF _ _ _ refl refl refl]
  by (simp add: ex_fs_def ex_notebook_def)

section \<open>Summaries of stream outputs\<close>

text \<open>
  Claim C4.  The summary of a stream output, at the indices \<open>i\<close> and \<open>j\<close> that the
  renderer's loops give its cell and its place among the outputs (both from 0): a text
  longer than 500 characters gives the label, its first 500 characters, the truncation
  marker, the hint and the locator with the 1-based indices \<open>i + 1\<close> and \<open>j + 1\<close>; a text
  of at most 500 characters gives the label and the whole text, and nothing after it.
\<close>

theorem stream_summary_truncation:
  "output_type out = ''stream'' \<longrightarrow>
     (500 < length (stream_text out) \<longrightarrow>
        output_summary unescape i j out =
          ''Text: '' @ take 500 (stream_text out)
          @ ''... [TRUNCATED] Use `get_full_output` for full content. (cell ''
          @ str_int (i + 1) @ '' [1-based], output '' @ str_int (j + 1) @ '' [1-based])'')
     \<and> (length (stream_text out) \<le> 500 \<longrightarrow>
          output_summary unescape i j out = ''Text: '' @ stream_text out)"
  by (simp add: output_summary_def format_text_output_def MAX_TEXT_OUTPUT_LENGTH_def
      TRUNCATION_MARKER_def HINT_FULL_OUTPUT_def)

theorem stream_summary_truncation_witness:
  "(let out = ex_stream\<lparr>stream_text := replicate 800 (CHR ''a'')\<rparr>
    in output_type out = ''stream'' \<and> 500 < length (stream_text out)
       \<and> output_summary (\<lambda>s. s) 1 0 out =
           ''Text: '' @ replicate 500 (CHR ''a'')
           @ ''... [TRUNCATED] Use `get_full_output` for full content. (cell 2 [1-based], output 1 [1-based])'')
   \<and> output_type ex_stream = ''stream'' \<and> length (stream_text ex_stream) \<le> 500
   \<and> output_summary (\<lambda>s. s) 1 0 ex_stream = ''Text: 1''"
  using stream_summary_truncation
    [of "ex_stream\<lparr>stream_text := replicate 800 (CHR ''a'')\<rparr>" "\<lambda>s. s" 1 0]
    stream_summary_truncation [of ex_stream "\<lambda>s. s" 1 0]
  by (simp add: str_int_digits ex_stream_def)

section \<open>Insertion and deletion\<close>

text \<open>
  Claim C9.  For a notebook with \<open>n\<close> cells, a 1-based index \<open>k\<close> from 1 to \<open>n + 1\<close> and
  one of the two kinds, on a file that can be written: \<open>add_cell\<close> succeeds, reports \<open>k\<close>
  and leaves a notebook of \<open>n + 1\<close> cells in the file; \<open>delete_cell\<close> at \<open>k\<close> on the result
  succeeds and the file holds the notebook it held at the start, every cell as it was.
\<close>

theorem insert_then_delete_restores:
  assumes "files st path = Some (Inr nb)" and "write_error st path = None"
    and "1 \<le> k" and "k \<le> int (length (cells nb)) + 1"
    and "kind = ''code'' \<or> kind = ''markdown''"
  shows "(case add_cell st path k kind src of (st1, r1) \<Rightarrow>
            success r1 \<and> new_cell_actual_index r1 = k
            \<and> (\<exists>nb1. files st1 path = Some (Inr nb1)
                  \<and> length (cells nb1) = length (cells nb) + 1
                  \<and> delete_in_memory nb1 k = (nb, None))
            \<and> (case delete_cell st1 path k of (st2, r2) \<Rightarrow>
                  success r2 \<and> error r2 = None \<and> files st2 path = Some (Inr nb) \<and> st2 = st))"
proof -
  define newc where "newc = (if kind = ''code'' then new_code_cell src else new_markdown_cell src)"
  define nb1 where "nb1 = nb\<lparr>cells := insert_at (nat (k - 1)) newc (cells nb)\<rparr>"
  define st1 where "st1 = st\<lparr>files := (files st)(path \<mapsto> Inr nb1)\<rparr>"
  have kk: "nat (k - 1) \<le> length (cells nb)" using assms(3,4) by simp
  have len1: "length (cells nb1) = length (cells nb) + 1"
    by (simp add: nb1_def insert_at_def)
  have add_mem: "add_in_memory nb k kind src = (nb1, None)"
    using add_in_memory_ok [OF assms(3-5)] by (simp add: nb1_def newc_def)
  have added: "add_cell st path k kind src =
               (st1, \<lparr>error = None, filepath = path, success = True, new_cell_actual_index = k\<rparr>)"
    using add_mem assms(1,2)
    by (simp add: add_cell_def read_notebook_ok truthy_def write_notebook_def st1_def)
  have del_mem: "delete_in_memory nb1 k = (nb, None)"
    using assms(3,4) kk len1
    by (simp add: delete_in_memory_def Let_def nb1_def del_at_insert_at)
  have f1: "files st1 path = Some (Inr nb1)" and w1: "write_error st1 path = None"
    using assms(2) by (simp_all add: st1_def)
  have restored: "st1\<lparr>files := (files st1)(path \<mapsto> Inr nb)\<rparr> = st"
    using assms(1) by (simp add: st1_def fun_upd_idem)
  have deleted: "delete_cell st1 path k = (st, \<lparr>error = None, filepath = path, success = True\<rparr>)"
    using del_mem f1 w1 restored
    by (simp add: delete_cell_def read_notebook_ok truthy_def persist_ok)
  show ?thesis
    using added deleted f1 len1 del_mem assms(1) by simp
qed

theorem insert_then_delete_restores_witness:
  "files ex_fs ''nb.ipynb'' = Some (Inr ex_notebook) \<and> write_error ex_fs ''nb.ipynb'' = None
   \<and> (1::int) \<le> 2 \<and> (2::int) \<le> int (length (cells ex_notebook)) + 1
   \<and> (case add_cell ex_fs ''nb.ipynb'' 2 ''markdown'' ''new'' of (st1, r1) \<Rightarrow>
         success r1 \<and> (case delete_cell st1 ''nb.ipynb'' 2 of (st2, r2) \<Rightarrow>
            success r2 \<and> files st2 ''nb.ipynb'' = Some (Inr ex_notebook)))"
  using insert_then_delete_restores [where st = ex_fs and path = "''nb.ipynb''"
      and nb = ex_notebook and k = 2 and kind = "''markdown''" and src = "''new''"]
  by (simp add: ex_fs_def ex_notebook_def split: prod.splits)

section \<open>The order of the checks of get_full_output\<close>

text \<open>
  Claim C10.  When the 1-based cell index names a cell that is not a code cell or has no
  outputs, \<open>get_full_output\<close> returns the failure that says so, whatever the output index
  is: the check of the output index comes after it and is not reached.
\<close>

theorem full_output_kind_check_first:
  assumes "files st path = Some (Inr nb)"
    and "1 \<le> cell_index" and "cell_index \<le> int (length (cells nb))"
    and "cell_type (cells nb ! nat (cell_index - 1)) \<noteq> ''code''
         \<or> outputs (cells nb ! nat (cell_index - 1)) = []"
  shows "get_full_output json_dumps st path cell_index output_index type_hint =
           \<lparr>error = Some (''Cell '' @ str_int cell_index
                           @ '' is not a code cell or has no outputs.''),
            full_output_data = None, mime_type = None\<rparr>"
  using assms
  by (auto simp add: get_full_output_def read_notebook_ok truthy_def output_failure_def Let_def)

theorem full_output_kind_check_first_witness:
  "files ex_fs ''nb.ipynb'' = Some (Inr ex_notebook)
   \<and> (1::int) \<le> 3 \<and> (3::int) \<le> int (length (cells ex_notebook))
   \<and> cell_type (cells ex_notebook ! nat (3 - 1)) \<noteq> ''code''
   \<and> get_full_output (\<lambda>d. ''{}'') ex_fs ''nb.ipynb'' 3 7 None =
        \<lparr>error = Some ''Cell 3 is not a code cell or has no outputs.'',
         full_output_data = None, mime_type = None\<rparr>"
  using full_output_kind_check_first [where st = ex_fs and path = "''nb.ipynb''"
      and nb = ex_notebook and cell_index = 3 and output_index = 7 and type_hint = None
      and json_dumps = "\<lambda>d. ''{}''"]
  by (simp add: ex_fs_def ex_notebook_def str_int_digits)

section \<open>The payload that get_full_output selects\<close>

text \<open>
  Claim C8.  For a \<^verbatim>\<open>display_data\<close> or \<^verbatim>\<open>execute_result\<close> output at a valid 1-based cell
  index and output index of a code cell, \<open>get_full_output\<close> succeeds with the payload and
  the mime type that the policy of the specification selects: the key of the type hint
  when the hint is \<^verbatim>\<open>image\<close>, \<^verbatim>\<open>text\<close> or \<^verbatim>\<open>table\<close> and the output has that key, otherwise
  \<^verbatim>\<open>text/plain\<close> when present, otherwise \<^verbatim>\<open>image/png\<close> when present, otherwise the JSON
  encoding of the whole payload with the mime type \<^verbatim>\<open>application/json\<close>.
\<close>

theorem result_payload_selection:
  assumes "files st path = Some (Inr nb)"
    and "1 \<le> cell_index" and "cell_index \<le> int (length (cells nb))"
    and "c = cells nb ! nat (cell_index - 1)" and "cell_type c = ''code''"
    and "1 \<le> output_index" and "output_index \<le> int (length (outputs c))"
    and "out = outputs c ! nat (output_index - 1)"
    and "output_type out = ''display_data'' \<or> output_type out = ''execute_result''"
  shows "get_full_output json_dumps st path cell_index output_index type_hint =
           \<lparr>error = None,
            full_output_data = Some (Str (fst (spec_select json_dumps (data out) type_hint))),
            mime_type = Some (snd (spec_select json_dumps (data out) type_hint))\<rparr>"
proof -
  have ne: "outputs c \<noteq> []" using assms(6,7) by auto
  have sel: "select_output json_dumps out type_hint =
     (Some (Str (fst (spec_select json_dumps (data out) type_hint))),
      Some (snd (spec_select json_dumps (data out) type_hint)))"
    using assms(9) by (rule select_output_result)
  have r: "read_notebook st path = (Some nb, None)"
    using assms(1) by (rule read_notebook_ok)
  show ?thesis
    using assms(2-8) ne sel
    by (auto simp add: get_full_output_def r truthy_def Let_def)
qed

theorem result_payload_selection_witness:
  "files ex_results_fs ''r.ipynb'' =
      Some (Inr \<lparr>cells = [\<lparr>cell_type = ''code'', source = ''df'', outputs = [ex_result]\<rparr>]\<rparr>)
   \<and> output_type ex_result = ''execute_result''
   \<and> get_full_output (\<lambda>d. ''{}'') ex_results_fs ''r.ipynb'' 1 1 (Some ''table'') =
        \<lparr>error = None, full_output_data = Some (Str ''<table></table>''),
         mime_type = Some ''text/html''\<rparr>
   \<and> get_full_output (\<lambda>d. ''{}'') ex_results_fs ''r.ipynb'' 1 1 (Some ''image'') =
        \<lparr>error = None, full_output_data = Some (Str ''df''), mime_type = Some ''text/plain''\<rparr>"
  using result_payload_selection [where st = ex_results_fs and path = "''r.ipynb''"
      and cell_index = 1 and output_index = 1 and json_dumps = "\<lambda>d. ''{}''"
      and type_hint = "Some ''table''", OF _ _ _ refl _ _ _ refl]
    result_payload_selection [where st = ex_results_fs and path = "''r.ipynb''"
      and cell_index = 1 and output_index = 1 and json_dumps = "\<lambda>d. ''{}''"
      and type_hint = "Some ''image''", OF _ _ _ refl _ _ _ refl]
  by (simp add: ex_results_fs_def ex_result_def spec_select_def spec_hint_key_def
      spec_fallback_def has_key_def lookup_def)

section \<open>Outputs of an unrecognized type in the digest\<close>

text \<open>
  Claim C5, as the code has it.  For a notebook with a code cell \<open>c\<close> at the 0-based place
  \<open>i\<close> and an output \<open>out\<close> of \<open>c\<close> at the 0-based place \<open>j\<close> whose type is none of
  \<^verbatim>\<open>stream\<close>, \<^verbatim>\<open>display_data\<close>, \<^verbatim>\<open>execute_result\<close> and \<^verbatim>\<open>error\<close>: the summary of \<open>out\<close> is the
  empty string, and the digest holds, between the lines of the outputs before \<open>out\<close> and
  those of the outputs after it, the line that consists of a dash and a space.  The line is
  not left out.
\<close>

theorem unrecognized_output_line:
  assumes "files st path = Some (Inr nb)"
    and "cells nb = cs1 @ c # cs2" and "i = int (length cs1)"
    and "cell_type c = ''code''"
    and "outputs c = os1 @ out # os2" and "j = int (length os1)"
    and "output_type out \<notin> set [''stream'', ''display_data'', ''execute_result'', ''error'']"
  shows "output_summary ue i j out = []
         \<and> formatted_content (get_formatted_content ue st path) =
             concat (cells_loop ue 0 cs1)
             @ ''[[Cell '' @ str_int (i + 1) @ '' - Code]]\<newline>```\<newline>'' @ strip (source c)
             @ ''\<newline>```\<newline>[[Cell '' @ str_int (i + 1) @ '' - Output]]\<newline>''
             @ concat (outputs_loop ue i 0 os1)
             @ ''- \<newline>''
             @ concat (outputs_loop ue i (j + 1) os2)
             @ ''\<newline>''
             @ concat (cells_loop ue (i + 1) cs2)"
proof -
  have s: "output_summary ue i j out = []"
    using assms(7) by (rule unrecognized_summary)
  have ol: "outputs_loop ue i 0 (outputs c) =
              outputs_loop ue i 0 os1 @ [''- \<newline>''] @ outputs_loop ue i (j + 1) os2"
    using s by (simp add: assms(5) outputs_loop_append assms(6))
  have cb: "concat (cell_block ue i c) =
              ''[[Cell '' @ str_int (i + 1) @ '' - Code]]\<newline>```\<newline>'' @ strip (source c)
             @ ''\<newline>```\<newline>[[Cell '' @ str_int (i + 1) @ '' - Output]]\<newline>''
             @ concat (outputs_loop ue i 0 os1)
             @ ''- \<newline>''
             @ concat (outputs_loop ue i (j + 1) os2)
             @ ''\<newline>''"
    unfolding cell_block_def ol
    by (simp add: assms(4,5) capitalize_code)
  have d: "formatted_content (get_formatted_content ue st path) = concat (cells_loop ue 0 (cells nb))"
    by (simp add: get_formatted_content_def read_notebook_ok [OF assms(1)] truthy_def)
  have "concat (cells_loop ue 0 (cells nb)) =
          concat (cells_loop ue 0 cs1) @ concat (cell_block ue i c) @ concat (cells_loop ue (i + 1) cs2)"
    by (simp add: assms(2,3) cells_loop_append)
  with d cb s show ?thesis by simp
qed

theorem unrecognized_output_line_witness:
  "files ex_unknown_fs ''u.ipynb'' =
      Some (Inr \<lparr>cells = [\<lparr>cell_type = ''code'', source = ''x'', outputs = [ex_unknown]\<rparr>]\<rparr>)
   \<and> output_type ex_unknown \<notin> set [''stream'', ''display_data'', ''execute_result'', ''error'']
   \<and> output_summary (\<lambda>s. s) 0 0 ex_unknown = []
   \<and> formatted_content (get_formatted_content (\<lambda>s. s) ex_unknown_fs ''u.ipynb'') =
        ''[[Cell 1 - Code]]\<newline>```\<newline>x\<newline>```\<newline>[[Cell 1 - Output]]\<newline>- \<newline>\<newline>''"
  using unrecognized_output_line [where st = ex_unknown_fs and path = "''u.ipynb''"
      and ?cs1.0 = "[]" and ?cs2.0 = "[]" and ?os1.0 = "[]" and ?os2.0 = "[]" and out = ex_unknown
      and c = "\<lparr>cell_type = ''code'', source = ''x'', outputs = [ex_unknown]\<rparr>"
      and nb = "\<lparr>cells = [\<lparr>cell_type = ''code'', source = ''x'', outputs = [ex_unknown]\<rparr>]\<rparr>"
      and ue = "\<lambda>s. s", OF _ _ refl _ _ refl]
  by (simp add: ex_unknown_fs_def ex_unknown_def str_int_digits strip_x)

text \<open>
  The sentence of claim C5 that the digest has no line for such an output fails on a
  notebook of one code cell whose only output has the type \<^verbatim>\<open>update_display_data\<close>: the
  digest ends with the output header, the line of a dash and a space, and the empty line
  that closes the cell; it is not the digest without that line.
\<close>

theorem unrecognized_output_line_kept:
  "output_summary (\<lambda>s. s) 0 0 ex_unknown = []
   \<and> formatted_content (get_formatted_content (\<lambda>s. s) ex_unknown_fs ''u.ipynb'') =
        ''[[Cell 1 - Code]]\<newline>```\<newline>x\<newline>```\<newline>[[Cell 1 - Output]]\<newline>- \<newline>\<newline>''
   \<and> formatted_content (get_formatted_content (\<lambda>s. s) ex_unknown_fs ''u.ipynb'') \<noteq>
        ''[[Cell 1 - Code]]\<newline>```\<newline>x\<newline>```\<newline>[[Cell 1 - Output]]\<newline>\<newline>''"
  by (simp add: get_formatted_content_def read_notebook_def ex_unknown_fs_def truthy_def
      cell_block_def output_summary_def ex_unknown_def str_int_digits strip_x
      capitalize_code)

section \<open>The row bound of the table extractor\<close>

text \<open>
  Claim C7, as the code has it.  For an HTML text in which the search for the header
  section gives at least one header cell and the search for the body section gives the
  rows \<open>trs\<close>, the extractor emits, inside the fenced block and joined by line feeds: the
  pipe row of the header cells, the separator row with one group of dashes for each of
  them, and one pipe row for each of the first five rows of \<open>trs\<close> that has at least one
  data cell, a row without a data cell giving no line and the rows after the fifth giving
  none either; then the line of the truncation marker exactly when \<open>trs\<close> has more than
  five rows, so for eight rows and not for five or fewer.
\<close>

theorem table_rows_bounded:
  assumes "search_element ''thead'' html = Some (header_content, after_header)"
    and "findall_element ''th'' header_content = ths" and "ths \<noteq> []"
    and "search_element ''tbody'' html = Some (body_content, after_body)"
    and "findall_element ''tr'' body_content = trs"
  shows "format_table_output ue html c_idx o_idx =
           ''Table (HTML): \<newline>```markdown\<newline>''
           @ join ''\<newline>''
               (pipe_row ue ths
                # (''|'' @ concat (replicate (length ths) ''---|''))
                # map (\<lambda>tr. pipe_row ue (findall_element ''td'' tr))
                    (filter (\<lambda>tr. findall_element ''td'' tr \<noteq> []) (take 5 trs)))
           @ (if 5 < length trs then ''\<newline>... [TRUNCATED]'' else [])
           @ ''\<newline>```\<newline>Use `get_full_output` for full content. (cell ''
           @ str_int c_idx @ '' [1-based], output '' @ str_int o_idx @ '' [1-based])''"
proof -
  have h: "header_rows ue html =
             [pipe_row ue ths, ''|'' @ concat (replicate (length ths) ''---|'')]"
    using assms(3) by (simp add: header_rows_def assms(1,2) Let_def)
  have b: "body_rows ue 0 trs =
             map (\<lambda>tr. pipe_row ue (findall_element ''td'' tr))
                 (filter (\<lambda>tr. findall_element ''td'' tr \<noteq> []) (take 5 trs))"
    by (simp add: body_rows_bounded MAX_TABLE_ROWS_def)
  show ?thesis
    unfolding format_table_output_def assms(4) Let_def
    by (simp add: assms(5) h b MAX_TABLE_ROWS_def TRUNCATION_MARKER_def HINT_FULL_OUTPUT_def)
qed

theorem table_rows_bounded_witness:
  "search_element ''thead'' ex_table8 =
     Some (''<tr><th>n</th></tr>'', ''<tbody><tr><td>1</td></tr><tr><td>2</td></tr><tr><td>3</td></tr><tr><td>4</td></tr><tr><td>5</td></tr><tr><td>6</td></tr><tr><td>7</td></tr><tr><td>8</td></tr></tbody></table>'')
   \<and> findall_element ''th'' ''<tr><th>n</th></tr>'' = [''n'']
   \<and> search_element ''tbody'' ex_table8 =
     Some (''<tr><td>1</td></tr><tr><td>2</td></tr><tr><td>3</td></tr><tr><td>4</td></tr><tr><td>5</td></tr><tr><td>6</td></tr><tr><td>7</td></tr><tr><td>8</td></tr>'', ''</table>'')
   \<and> length (findall_element ''tr'' ''<tr><td>1</td></tr><tr><td>2</td></tr><tr><td>3</td></tr><tr><td>4</td></tr><tr><td>5</td></tr><tr><td>6</td></tr><tr><td>7</td></tr><tr><td>8</td></tr>'') = 8
   \<and> format_table_output (\<lambda>s. s) ex_table8 2 1 =
       ''Table (HTML): \<newline>```markdown\<newline>| n |\<newline>|---|\<newline>| 1 |\<newline>| 2 |\<newline>| 3 |\<newline>| 4 |\<newline>| 5 |\<newline>... [TRUNCATED]\<newline>```\<newline>Use `get_full_output` for full content. (cell 2 [1-based], output 1 [1-based])''"
proof -
  have nonempty: "[''n''] \<noteq> ([] :: string list)" by simp
  note inst = table_rows_bounded [OF ex8_head ex8_ths nonempty ex8_body ex8_trs, of "\<lambda>s. s" 2 1]
  have out: "format_table_output (\<lambda>s. s) ex_table8 2 1 =
       ''Table (HTML): \<newline>```markdown\<newline>| n |\<newline>|---|\<newline>| 1 |\<newline>| 2 |\<newline>| 3 |\<newline>| 4 |\<newline>| 5 |\<newline>... [TRUNCATED]\<newline>```\<newline>Use `get_full_output` for full content. (cell 2 [1-based], output 1 [1-based])''"
    using inst [unfolded ex8_rows ex8_header_row] by (simp add: str_int_digits)
  show ?thesis
    using ex8_head ex8_ths ex8_body ex8_trs out by simp
qed

text \<open>
  The sentence of claim C7 that eight body rows always give five data rows fails on the
  table whose first body row holds a header cell and no data cell: the header is found,
  the body has eight rows, and the output has the four data rows of the rows 2 to 5
  before the truncation marker.
\<close>

theorem table_row_without_cells_skipped:
  "search_element ''thead'' ex_table_gap =
     Some (''<tr><th>n</th></tr>'', ''<tbody><tr><th>1</th></tr><tr><td>2</td></tr><tr><td>3</td></tr><tr><td>4</td></tr><tr><td>5</td></tr><tr><td>6</td></tr><tr><td>7</td></tr><tr><td>8</td></tr></tbody></table>'')
   \<and> findall_element ''th'' ''<tr><th>n</th></tr>'' = [''n'']
   \<and> search_element ''tbody'' ex_table_gap =
     Some (''<tr><th>1</th></tr><tr><td>2</td></tr><tr><td>3</td></tr><tr><td>4</td></tr><tr><td>5</td></tr><tr><td>6</td></tr><tr><td>7</td></tr><tr><td>8</td></tr>'', ''</table>'')
   \<and> length (findall_element ''tr'' ''<tr><th>1</th></tr><tr><td>2</td></tr><tr><td>3</td></tr><tr><td>4</td></tr><tr><td>5</td></tr><tr><td>6</td></tr><tr><td>7</td></tr><tr><td>8</td></tr>'') = 8
   \<and> format_table_output (\<lambda>s. s) ex_table_gap 2 1 =
       ''Table (HTML): \<newline>```markdown\<newline>| n |\<newline>|---|\<newline>| 2 |\<newline>| 3 |\<newline>| 4 |\<newline>| 5 |\<newline>... [TRUNCATED]\<newline>```\<newline>Use `get_full_output` for full content. (cell 2 [1-based], output 1 [1-based])''"
  using gap_head ex8_ths gap_body gap_trs gap_output by simp

section \<open>The table tag in mixed case\<close>

text \<open>
  Claim C6 at an output whose HTML payload writes the tag as \<^verbatim>\<open><Table>\<close>, with no image
  and with a plain text: the test of \<open>output_summary\<close> looks for \<^verbatim>\<open><table\<close> and \<^verbatim>\<open><TABLE\<close>
  only, so the summary is the one of the plain text, while the table extractor, which
  matches its tags without regard to case, gives the table for the same payload.
\<close>

theorem mixed_case_table_not_delegated:
  "output_summary (\<lambda>s. s) 0 0 ex_mixed = ''Text: n 1''
   \<and> format_table_output (\<lambda>s. s) (lookup (data ex_mixed) ''text/html'') (0 + 1) (0 + 1) =
       ''Table (HTML): \<newline>```markdown\<newline>| n |\<newline>|---|\<newline>| 1 |\<newline>```\<newline>Use `get_full_output` for full content. (cell 1 [1-based], output 1 [1-based])''"
proof -
  have html: "lookup (data ex_mixed) ''text/html'' =
      ''<Table><thead><tr><th>n</th></tr></thead><tbody><tr><td>1</td></tr></tbody></Table>''"
    by (simp add: ex_mixed_def lookup_def)
  have plain: "lookup (data ex_mixed) ''text/plain'' = ''n 1''"
    by (simp add: ex_mixed_def lookup_def)
  have keys: "\<not> has_key (data ex_mixed) ''image/png''" "has_key (data ex_mixed) ''text/html''"
    "has_key (data ex_mixed) ''text/plain''"
    by (simp_all add: ex_mixed_def has_key_def)
  have ty: "output_type ex_mixed = ''display_data''"
    by (simp add: ex_mixed_def)
  have s: "output_summary (\<lambda>s. s) 0 0 ex_mixed = ''Text: n 1''"
    unfolding output_summary_def ty html plain
    using keys mixed_no_lower mixed_no_upper
    by (simp add: format_text_output_def MAX_TEXT_OUTPUT_LENGTH_def)
  show ?thesis
    using s mixed_extracted by (simp add: html)
qed

end
